theory Spec2Isabelle
  imports Main "HOL-Library.AList"
begin

section \<open>Documents and Python dictionaries\<close>

text \<open>
  The handlers of \<^verbatim>\<open>app/user_routes/user.py\<close> and
  \<^verbatim>\<open>app/company_routes/company.py\<close> work on JSON request bodies and on the documents
  of two MongoDB collections. Both are Python dictionaries from strings to scalar values.
  A value is a JSON scalar (null, a boolean, an integer, a string), a store-assigned
  \<^verbatim>\<open>ObjectId\<close> (carried as its 24 hexadecimal digits) or a \<^verbatim>\<open>datetime\<close>
  (carried as its printed form). Nested arrays and sub-documents, and JSON numbers that
  are not integers, are not part of this model.
\<close>

datatype val = VNull | VBool bool | VNum int | VStr string | VOid string | VDate string

text \<open>
  A dictionary is an association list in insertion order; \<open>map_of\<close> reads it,
  \<open>AList.update\<close> is \<^verbatim>\<open>d[k] = v\<close> (in place, or appended for a new key) and
  \<open>AList.delete\<close> removes a key.
\<close>

type_synonym doc = "(string \<times> val) list"

definition has_key :: "doc \<Rightarrow> string \<Rightarrow> bool" where
  \<comment> \<open>\<^verbatim>\<open>k in d\<close>\<close>
  "has_key d k = (map_of d k \<noteq> None)"

definition dict_get :: "doc \<Rightarrow> string \<Rightarrow> val" where
  \<comment> \<open>\<^verbatim>\<open>d.get(k)\<close>: \<^verbatim>\<open>None\<close> for a missing key\<close>
  "dict_get d k = (case map_of d k of None \<Rightarrow> VNull | Some v \<Rightarrow> v)"

definition dict_item :: "doc \<Rightarrow> string \<Rightarrow> string + val" where
  \<comment> \<open>\<^verbatim>\<open>d[k]\<close>: raises \<^verbatim>\<open>KeyError\<close> for a missing key; \<open>Inl\<close> carries the key\<close>
  "dict_item d k = (case map_of d k of None \<Rightarrow> Inl k | Some v \<Rightarrow> Inr v)"

definition dict_del :: "doc \<Rightarrow> string \<Rightarrow> string + doc" where
  \<comment> \<open>\<^verbatim>\<open>del d[k]\<close>: raises \<^verbatim>\<open>KeyError\<close> for a missing key\<close>
  "dict_del d k = (if has_key d k then Inr (AList.delete k d) else Inl k)"

definition dict_merge :: "doc \<Rightarrow> doc \<Rightarrow> doc" where
  \<comment> \<open>\<^verbatim>\<open>{**base, **ext}\<close>: the entries of \<open>ext\<close> override those of \<open>base\<close>\<close>
  "dict_merge base ext = fold (\<lambda>(k, v). AList.update k v) ext base"

definition truthy :: "doc option \<Rightarrow> bool" where
  \<comment> \<open>\<^verbatim>\<open>if d:\<close> for the result of \<^verbatim>\<open>find_one\<close>: \<^verbatim>\<open>None\<close> and the empty
      dictionary are false\<close>
  "truthy r = (case r of None \<Rightarrow> False | Some d \<Rightarrow> d \<noteq> [])"

text \<open>\<^verbatim>\<open>str(v)\<close>, which the handlers apply to the \<^verbatim>\<open>_id\<close> of a document.\<close>

fun nat_str :: "nat \<Rightarrow> string" where
  "nat_str n =
     (if n < 10 then [''0123456789'' ! n]
      else nat_str (n div 10) @ [''0123456789'' ! (n mod 10)])"

declare nat_str.simps [simp del]

fun py_str :: "val \<Rightarrow> string" where
  "py_str VNull = ''None''"
| "py_str (VBool b) = (if b then ''True'' else ''False'')"
| "py_str (VNum i) = (if i < 0 then CHR ''-'' # nat_str (nat (- i)) else nat_str (nat i))"
| "py_str (VStr s) = s"
| "py_str (VOid h) = h"
| "py_str (VDate t) = t"

section \<open>The document store\<close>

text \<open>
  The driver (\<^verbatim>\<open>flask_pymongo\<close>) is an external collaborator. Its collections are
  modelled as lists of documents in insertion order, with the operations the handlers
  call. A filter is an exact match on each of its fields; as in MongoDB, a filter value
  \<^verbatim>\<open>None\<close> also matches a document that lacks the field.
\<close>

definition matches :: "doc \<Rightarrow> doc \<Rightarrow> bool" where
  "matches flt d =
     list_all (\<lambda>(k, v). case map_of d k of None \<Rightarrow> v = VNull | Some w \<Rightarrow> w = v) flt"

definition project :: "string list \<Rightarrow> doc \<Rightarrow> doc" where
  \<comment> \<open>a projection \<^verbatim>\<open>{k: 0, ...}\<close> leaves the listed fields out\<close>
  "project excl d = fold AList.delete excl d"

definition find_docs :: "doc list \<Rightarrow> doc \<Rightarrow> string list \<Rightarrow> doc list" where
  \<comment> \<open>\<^verbatim>\<open>list(collection.find(flt, projection))\<close>\<close>
  "find_docs coll flt excl = map (project excl) (filter (matches flt) coll)"

definition find_one :: "doc list \<Rightarrow> doc \<Rightarrow> string list \<Rightarrow> doc option" where
  "find_one coll flt excl =
     (case filter (matches flt) coll of [] \<Rightarrow> None | d # _ \<Rightarrow> Some (project excl d))"

definition count_documents :: "doc list \<Rightarrow> doc \<Rightarrow> nat" where
  "count_documents coll flt = length (filter (matches flt) coll)"

fun delete_first :: "doc \<Rightarrow> doc list \<Rightarrow> doc list" where
  "delete_first flt [] = []"
| "delete_first flt (d # ds) = (if matches flt d then ds else d # delete_first flt ds)"

definition delete_one :: "doc list \<Rightarrow> doc \<Rightarrow> nat \<times> doc list" where
  \<comment> \<open>\<^verbatim>\<open>deleted_count\<close> and the collection afterwards\<close>
  "delete_one coll flt =
     (if find_one coll flt [] = None then (0, coll) else (1, delete_first flt coll))"

fun replace_first :: "doc \<Rightarrow> doc \<Rightarrow> doc list \<Rightarrow> doc list" where
  "replace_first flt d' [] = []"
| "replace_first flt d' (d # ds) =
     (if matches flt d then d' # ds else d # replace_first flt d' ds)"

definition immutable_id :: string where
  "immutable_id = ''Performing an update on the path _id would modify the immutable field _id''"

definition update_one :: "doc list \<Rightarrow> doc \<Rightarrow> doc \<Rightarrow> string + (nat \<times> doc list)" where
  \<comment> \<open>\<^verbatim>\<open>update_one(flt, {"$set": upd})\<close>: \<^verbatim>\<open>modified_count\<close> and the collection
      afterwards. The store refuses a write that would change the \<^verbatim>\<open>_id\<close> of the
      matched document; a matched document that the update leaves as it is counts as
      not modified.\<close>
  "update_one coll flt upd =
     (case find_one coll flt [] of
        None \<Rightarrow> Inr (0, coll)
      | Some d \<Rightarrow>
          if has_key upd ''_id'' \<and> map_of d ''_id'' \<noteq> map_of upd ''_id''
          then Inl immutable_id
          else let d' = dict_merge d upd
               in Inr (if d' = d then 0 else 1, replace_first flt d' coll))"

definition duplicate_key :: string where
  "duplicate_key = ''E11000 duplicate key error''"

definition insert_one :: "string \<Rightarrow> doc list \<Rightarrow> doc \<Rightarrow> string + (val \<times> doc list)" where
  \<comment> \<open>\<^verbatim>\<open>insert_one(d)\<close>: \<^verbatim>\<open>inserted_id\<close> and the collection afterwards. A document
      without \<^verbatim>\<open>_id\<close> gets the \<^verbatim>\<open>ObjectId\<close> \<open>oid\<close> the driver generated; an
      \<^verbatim>\<open>_id\<close> already in the collection is a duplicate key error.\<close>
  "insert_one oid coll d =
     (let d' = (if has_key d ''_id'' then d else (''_id'', VOid oid) # d);
          i = dict_get d' ''_id''
      in if list_ex (\<lambda>x. map_of x ''_id'' = Some i) coll then Inl duplicate_key
         else Inr (i, coll @ [d']))"

record db =
  user :: "doc list"
  company :: "doc list"
  acknowledged :: bool

text \<open>
  Any storage call can also raise for reasons outside the data (the tests of the
  repository patch \<^verbatim>\<open>insert_one\<close>, \<^verbatim>\<open>find_one\<close>, \<^verbatim>\<open>delete_one\<close> and
  \<^verbatim>\<open>update_one\<close> with a \<^verbatim>\<open>side_effect\<close>). A fault plan gives, for the \<open>k\<close>-th
  storage call of a request, the text of the exception it raises, if any.
\<close>

type_synonym faults = "nat \<Rightarrow> string option"

definition no_faults :: faults where
  "no_faults = (\<lambda>k. None)"

definition storage_call :: "faults \<Rightarrow> nat \<Rightarrow> (string + 'a) \<Rightarrow> string + 'a" where
  "storage_call fs k r = (case fs k of Some e \<Rightarrow> Inl e | None \<Rightarrow> r)"

text \<open>
  The invariant of a collection: every document has an \<^verbatim>\<open>_id\<close>. The driver adds one
  on insert and no update removes it.
\<close>

definition stored :: "doc list \<Rightarrow> bool" where
  "stored coll = list_all (\<lambda>d. has_key d ''_id'') coll"

section \<open>Responses\<close>

record token =
  sub :: string
  exp :: nat
  signature :: string

datatype body =
    Message string
  | Msg string
  | Document doc
  | Documents "doc list"
  | Login token doc

type_synonym response = "body \<times> nat"

section \<open>The request environment and the libraries\<close>

text \<open>
  What a request reads from outside the program: the two clocks, the \<^verbatim>\<open>ObjectId\<close>
  the driver generates for an insert, the salt \<^verbatim>\<open>bcrypt.gensalt()\<close> draws, and the
  two cryptographic primitives, taken as parameters: \<^verbatim>\<open>bcrypt.hashpw(password, salt)\<close>
  (\<open>None\<close> when the salt is not a bcrypt salt, where the library raises
  \<^verbatim>\<open>ValueError\<close>) and the HMAC-SHA256 of a token payload under a key.
\<close>

record env =
  now :: string
  utcnow :: nat
  new_oid :: string
  gensalt :: string
  hashpw :: "string \<Rightarrow> string \<Rightarrow> string option"
  hs256 :: "string \<Rightarrow> string \<times> nat \<Rightarrow> string"

subsection \<open>flask_bcrypt\<close>

fun falsy :: "val \<Rightarrow> bool" where
  "falsy VNull = True"
| "falsy (VBool b) = (\<not> b)"
| "falsy (VNum i) = (i = 0)"
| "falsy (VStr s) = (s = [])"
| "falsy (VOid h) = False"
| "falsy (VDate t) = False"

definition generate_password_hash :: "env \<Rightarrow> val \<Rightarrow> string + string" where
  \<comment> \<open>raises \<^verbatim>\<open>ValueError\<close> for an empty password and \<^verbatim>\<open>TypeError\<close> for one that is
      not a string\<close>
  "generate_password_hash e password =
     (if falsy password then Inl ''Password must be non-empty.''
      else case password of
             VStr p \<Rightarrow> (case hashpw e p (gensalt e) of
                          None \<Rightarrow> Inl ''Invalid salt''
                        | Some h \<Rightarrow> Inr h)
           | _ \<Rightarrow> Inl ''Strings must be encoded before hashing'')"

definition check_password_hash :: "env \<Rightarrow> val \<Rightarrow> val \<Rightarrow> string + bool" where
  \<comment> \<open>\<^verbatim>\<open>hmac.compare_digest(bcrypt.hashpw(password, pw_hash), pw_hash)\<close>; a password or
      a hash that is not a string (such as \<^verbatim>\<open>None\<close>) raises \<^verbatim>\<open>TypeError\<close>\<close>
  "check_password_hash e pw_hash password =
     (case (pw_hash, password) of
        (VStr h, VStr p) \<Rightarrow> (case hashpw e p h of
                              None \<Rightarrow> Inl ''Invalid salt''
                            | Some h' \<Rightarrow> Inr (h' = h))
      | _ \<Rightarrow> Inl ''Strings must be encoded before hashing'')"

subsection \<open>Tokens\<close>

text \<open>
  A token carries its payload \<^verbatim>\<open>{"sub": ..., "exp": ...}\<close> and the HS256 signature of
  that payload. Decoding checks the signature first and the expiry second; a token is
  expired from the instant \<^verbatim>\<open>exp\<close> on. Strings that are not tokens are not modelled.
\<close>

datatype token_error = Invalid | Expired

definition jwt_encode :: "env \<Rightarrow> string \<times> nat \<Rightarrow> string \<Rightarrow> token" where
  "jwt_encode e payload key =
     \<lparr>sub = fst payload, exp = snd payload, signature = hs256 e key payload\<rparr>"

definition jwt_decode :: "env \<Rightarrow> token \<Rightarrow> string \<Rightarrow> token_error + string" where
  "jwt_decode e tok key =
     (if signature tok \<noteq> hs256 e key (sub tok, exp tok) then Inl Invalid
      else if exp tok \<le> utcnow e then Inl Expired
      else Inr (sub tok))"

definition JWT_SECRET_KEY :: string where
  \<comment> \<open>\<^verbatim>\<open>app.config['JWT_SECRET_KEY']\<close> of \<^verbatim>\<open>create_app\<close>\<close>
  "JWT_SECRET_KEY = ''4hSN-iBJTODPf_OpNvi0J2kWEISBGkM1K3qsq6dKbiw''"

definition jwt_required :: "env \<Rightarrow> token option \<Rightarrow> response + string" where
  \<comment> \<open>the decorator of \<^verbatim>\<open>flask_jwt_extended\<close>: the identity of the bearer token, or
      the response of the extension's error handler\<close>
  "jwt_required e bearer =
     (case bearer of
        None \<Rightarrow> Inl (Msg ''Missing Authorization Header'', 401)
      | Some tok \<Rightarrow>
          (case jwt_decode e tok JWT_SECRET_KEY of
             Inl Invalid \<Rightarrow> Inl (Msg ''Signature verification failed'', 422)
           | Inl Expired \<Rightarrow> Inl (Msg ''Token has expired'', 401)
           | Inr identity \<Rightarrow> Inr identity))"

definition login_token :: "env \<Rightarrow> string \<Rightarrow> token" where
  \<comment> \<open>lines 220 to 225 of \<^verbatim>\<open>login_user\<close>: the token for \<open>user_id_str\<close>, valid for one
      day\<close>
  "login_token e user_id_str =
     jwt_encode e (user_id_str, utcnow e + 86400) ''your_secret_key_here''"

subsection \<open>bson.ObjectId\<close>

definition lower_hex :: "char \<Rightarrow> char" where
  "lower_hex c =
     (if c = CHR ''A'' then CHR ''a'' else if c = CHR ''B'' then CHR ''b''
      else if c = CHR ''C'' then CHR ''c'' else if c = CHR ''D'' then CHR ''d''
      else if c = CHR ''E'' then CHR ''e'' else if c = CHR ''F'' then CHR ''f'' else c)"

definition ObjectId :: "string \<Rightarrow> string + val" where
  \<comment> \<open>\<^verbatim>\<open>ObjectId(s)\<close>: raises \<^verbatim>\<open>InvalidId\<close> unless \<open>s\<close> is 24 hexadecimal digits\<close>
  "ObjectId s =
     (if length s = 24 \<and> list_all (\<lambda>c. c \<in> set ''0123456789abcdefABCDEF'') s
      then Inr (VOid (map lower_hex s))
      else Inl (s @ '' is not a valid ObjectId''))"

section \<open>User routes\<close>

definition stringify_id :: "doc \<Rightarrow> doc" where
  \<comment> \<open>\<^verbatim>\<open>if "_id" in d: d["_id"] = str(d["_id"])\<close>\<close>
  "stringify_id d =
     (if has_key d ''_id'' then AList.update ''_id'' (VStr (py_str (dict_get d ''_id''))) d
      else d)"

text \<open>
  \<^verbatim>\<open>get_all_users\<close> has no handler of its own: an exception of the storage call leaves
  the function (\<open>Inl\<close>).
\<close>

definition get_all_users :: "faults \<Rightarrow> db \<Rightarrow> string + response" where
  "get_all_users fs s =
     (case storage_call fs 0 (Inr (find_docs (user s) [] [''password''])) of
        Inl e \<Rightarrow> Inl e
      | Inr users \<Rightarrow> Inr (Documents (map stringify_id users), 200))"

text \<open>
  In \<^verbatim>\<open>create_user\<close> the values of the re-read document are copied through a
  comprehension that decodes \<^verbatim>\<open>bytes\<close>; no value of this model is \<^verbatim>\<open>bytes\<close>, so
  the copy is the document itself.
\<close>

definition create_user :: "env \<Rightarrow> faults \<Rightarrow> db \<Rightarrow> doc \<Rightarrow> response \<times> db" where
  "create_user e fs s data =
     (case storage_call fs 0
             (Inr (find_one (user s) [(''email'', dict_get data ''email'')] [])) of
        Inl err \<Rightarrow> ((Message ''User creation error'', 500), s)
      | Inr existing_user \<Rightarrow>
          if truthy existing_user
          then ((Message ''User with the same email already exists'', 400), s)
          else
            (case (if has_key data ''password''
                   then (case generate_password_hash e (dict_get data ''password'') of
                           Inl err \<Rightarrow> Inl err
                         | Inr h \<Rightarrow> Inr (AList.update ''password'' (VStr h) data))
                   else Inr data) of
               Inl err \<Rightarrow> ((Message ''User creation error'', 500), s)
             | Inr data' \<Rightarrow>
                 (case storage_call fs 1
                         (insert_one (new_oid e) (user s)
                            (dict_merge [(''dataCreated'', VDate (now e))] data')) of
                    Inl err \<Rightarrow> ((Message ''User creation error'', 500), s)
                  | Inr (inserted_id, coll) \<Rightarrow>
                      if acknowledged s
                      then
                        (case storage_call fs 2
                                (Inr (find_one coll [(''_id'', inserted_id)] [])) of
                           Inl err \<Rightarrow> ((Message ''User creation error'', 500), s\<lparr>user := coll\<rparr>)
                         | Inr None \<Rightarrow> ((Message ''User creation error'', 500), s\<lparr>user := coll\<rparr>)
                         | Inr (Some created_user) \<Rightarrow>
                             (case dict_item created_user ''_id'' of
                                Inl err \<Rightarrow>
                                  ((Message ''User creation error'', 500), s\<lparr>user := coll\<rparr>)
                              | Inr i \<Rightarrow>
                                  (case dict_del
                                          (AList.update ''_id'' (VStr (py_str i)) created_user)
                                          ''password'' of
                                     Inl err \<Rightarrow>
                                       ((Message ''User creation error'', 500),
                                        s\<lparr>user := coll\<rparr>)
                                   | Inr user_data \<Rightarrow>
                                       ((Document user_data, 201), s\<lparr>user := coll\<rparr>))))
                      else ((Message ''User creation failed'', 500), s\<lparr>user := coll\<rparr>))))"

definition login_user :: "env \<Rightarrow> faults \<Rightarrow> db \<Rightarrow> doc \<Rightarrow> response" where
  "login_user e fs s data =
     (let email = dict_get data ''email''; password = dict_get data ''password''
      in case storage_call fs 0 (Inr (find_one (user s) [(''email'', email)] [])) of
           Inl err \<Rightarrow> (Message ''Authentication error'', 500)
         | Inr found \<Rightarrow>
             if \<not> truthy found then (Message ''Invalid credentials'', 401)
             else
               (case found of
                  None \<Rightarrow> (Message ''Invalid credentials'', 401)
                | Some u \<Rightarrow>
                    (case dict_item u ''password'' of
                       Inl err \<Rightarrow> (Message ''Authentication error'', 500)
                     | Inr pw_hash \<Rightarrow>
                         (case check_password_hash e pw_hash password of
                            Inl err \<Rightarrow> (Message ''Authentication error'', 500)
                          | Inr ok \<Rightarrow>
                              if \<not> ok then (Message ''Invalid credentials'', 401)
                              else
                                (case dict_item u ''_id'' of
                                   Inl err \<Rightarrow> (Message ''Authentication error'', 500)
                                 | Inr i \<Rightarrow>
                                     (Login (login_token e (py_str i))
                                        (AList.update ''id'' (VStr (py_str i))
                                           (AList.delete ''password'' u)),
                                      200))))))"

text \<open>
  \<^verbatim>\<open>get_user_profile\<close> runs behind \<^verbatim>\<open>@jwt_required()\<close>. No statement of its body
  raises \<^verbatim>\<open>InvalidTokenError\<close>, so its first \<^verbatim>\<open>except\<close> clause has no branch here.
\<close>

definition get_user_profile :: "env \<Rightarrow> faults \<Rightarrow> db \<Rightarrow> token option \<Rightarrow> response" where
  "get_user_profile e fs s bearer =
     (case jwt_required e bearer of
        Inl refused \<Rightarrow> refused
      | Inr current_user_id \<Rightarrow>
          (case ObjectId current_user_id of
             Inl err \<Rightarrow> (Message ''Error getting user profile'', 500)
           | Inr oid \<Rightarrow>
               (case storage_call fs 0
                       (Inr (find_one (user s) [(''_id'', oid)] [''_id'', ''password''])) of
                  Inl err \<Rightarrow> (Message ''Error getting user profile'', 500)
                | Inr user_data \<Rightarrow>
                    (case user_data of
                       None \<Rightarrow> (Message ''User not found'', 404)
                     | Some d \<Rightarrow>
                         if d \<noteq> [] then (Document d, 200)
                         else (Message ''User not found'', 404)))))"

definition get_user_code :: "faults \<Rightarrow> db \<Rightarrow> string \<Rightarrow> response" where
  "get_user_code fs s code =
     (case storage_call fs 0
             (Inr (find_one (user s) [(''code'', VStr code)] [''_id'', ''password''])) of
        Inl err \<Rightarrow> (Message ''Error getting user profile'', 500)
      | Inr user_data \<Rightarrow>
          (case user_data of
             None \<Rightarrow> (Message ''User not found'', 404)
           | Some d \<Rightarrow>
               if d \<noteq> [] then (Document d, 200) else (Message ''User not found'', 404)))"

definition delete_user :: "faults \<Rightarrow> db \<Rightarrow> string \<Rightarrow> response \<times> db" where
  "delete_user fs s code =
     (case storage_call fs 0 (Inr (delete_one (user s) [(''code'', VStr code)])) of
        Inl err \<Rightarrow> ((Message (''Error deleting the user: '' @ err), 500), s)
      | Inr (deleted_count, coll) \<Rightarrow>
          if deleted_count > 0
          then ((Message ''User deleted successfully'', 200), s\<lparr>user := coll\<rparr>)
          else ((Message ''User not found'', 404), s\<lparr>user := coll\<rparr>))"

definition update_user :: "env \<Rightarrow> faults \<Rightarrow> db \<Rightarrow> string \<Rightarrow> doc \<Rightarrow> response \<times> db" where
  "update_user e fs s code request_data =
     (case storage_call fs 0 (Inr (find_one (user s) [(''code'', VStr code)] [])) of
        Inl err \<Rightarrow> ((Message (''Error updating the user: '' @ err), 500), s)
      | Inr existing_user \<Rightarrow>
          if \<not> truthy existing_user then ((Message ''User not found'', 404), s)
          else
            (case (if has_key request_data ''password''
                   then (case generate_password_hash e (dict_get request_data ''password'') of
                           Inl err \<Rightarrow> Inl err
                         | Inr h \<Rightarrow> Inr (AList.update ''password'' (VStr h) request_data))
                   else Inr request_data) of
               Inl err \<Rightarrow> ((Message (''Error updating the user: '' @ err), 500), s)
             | Inr request_data' \<Rightarrow>
                 (case storage_call fs 1
                         (update_one (user s) [(''code'', VStr code)] request_data') of
                    Inl err \<Rightarrow> ((Message (''Error updating the user: '' @ err), 500), s)
                  | Inr (modified_count, coll) \<Rightarrow>
                      if modified_count > 0
                      then ((Message ''User updated successfully'', 200), s\<lparr>user := coll\<rparr>)
                      else ((Message ''No modifications made'', 200), s\<lparr>user := coll\<rparr>))))"

text \<open>
  The step that \<^verbatim>\<open>create_user\<close> (lines 126 to 128) and \<^verbatim>\<open>update_user\<close> (lines
  514 and 515) apply to the request body before their write: a password, if present, is
  replaced by its hash. It names the body that reaches the store in the statements below.
\<close>

definition hashed_body :: "env \<Rightarrow> doc \<Rightarrow> string + doc" where
  "hashed_body e data =
     (if has_key data ''password''
      then (case generate_password_hash e (dict_get data ''password'') of
              Inl err \<Rightarrow> Inl err
            | Inr h \<Rightarrow> Inr (AList.update ''password'' (VStr h) data))
      else Inr data)"

section \<open>Company routes\<close>

definition get_all_companies :: "faults \<Rightarrow> db \<Rightarrow> string + response" where
  "get_all_companies fs s =
     (case storage_call fs 0 (Inr (find_docs (company s) [] [''password''])) of
        Inl e \<Rightarrow> Inl e
      | Inr companies \<Rightarrow> Inr (Documents (map stringify_id companies), 200))"

definition create_company :: "env \<Rightarrow> faults \<Rightarrow> db \<Rightarrow> doc \<Rightarrow> response \<times> db" where
  "create_company e fs s data =
     (case storage_call fs 0
             (insert_one (new_oid e) (company s)
                (dict_merge [(''creationDate'', VDate (now e))] data)) of
        Inl err \<Rightarrow> ((Message ''Company creation error'', 500), s)
      | Inr (inserted_id, coll) \<Rightarrow>
          if acknowledged s
          then
            (case storage_call fs 1 (Inr (find_one coll [(''_id'', inserted_id)] [])) of
               Inl err \<Rightarrow> ((Message ''Company creation error'', 500), s\<lparr>company := coll\<rparr>)
             | Inr None \<Rightarrow> ((Message ''Company creation error'', 500), s\<lparr>company := coll\<rparr>)
             | Inr (Some created_company) \<Rightarrow>
                 (case dict_item created_company ''_id'' of
                    Inl err \<Rightarrow> ((Message ''Company creation error'', 500), s\<lparr>company := coll\<rparr>)
                  | Inr i \<Rightarrow>
                      ((Document (AList.update ''_id'' (VStr (py_str i)) created_company), 201),
                       s\<lparr>company := coll\<rparr>)))
          else ((Message ''Company creation failed'', 500), s\<lparr>company := coll\<rparr>))"

definition get_company_code :: "faults \<Rightarrow> db \<Rightarrow> string \<Rightarrow> response" where
  "get_company_code fs s code =
     (case storage_call fs 0
             (Inr (find_one (company s) [(''code'', VStr code)] [''_id'', ''password''])) of
        Inl err \<Rightarrow> (Message ''Error retrieving the company'', 500)
      | Inr company_data \<Rightarrow>
          (case company_data of
             None \<Rightarrow> (Message ''Company not found'', 404)
           | Some d \<Rightarrow>
               if d \<noteq> [] then (Document d, 200) else (Message ''Company not found'', 404)))"

definition delete_company :: "faults \<Rightarrow> db \<Rightarrow> string \<Rightarrow> response \<times> db" where
  "delete_company fs s code =
     (case storage_call fs 0 (Inr (count_documents (user s) [(''code'', VStr code)])) of
        Inl e \<Rightarrow> ((Message (''Error deleting the company: '' @ e), 500), s)
      | Inr users_count \<Rightarrow>
          if users_count > 0
          then ((Message ''This company cannot be deleted as it has associated users.'', 400), s)
          else
            (case storage_call fs 1 (Inr (delete_one (company s) [(''code'', VStr code)])) of
               Inl e \<Rightarrow> ((Message (''Error deleting the company: '' @ e), 500), s)
             | Inr (deleted_count, coll) \<Rightarrow>
                 if deleted_count > 0
                 then ((Message ''Company deleted successfully.'', 200), s\<lparr>company := coll\<rparr>)
                 else ((Message ''Company not found.'', 404), s\<lparr>company := coll\<rparr>)))"

definition update_company :: "faults \<Rightarrow> db \<Rightarrow> string \<Rightarrow> doc \<Rightarrow> response \<times> db" where
  "update_company fs s code request_data =
     (let request_data' =
            (if has_key request_data ''_id'' then AList.delete ''_id'' request_data
             else request_data)
      in case storage_call fs 0
                (update_one (company s) [(''code'', VStr code)] request_data') of
           Inl err \<Rightarrow> ((Message ''Error updating the company.'', 500), s)
         | Inr (modified_count, coll) \<Rightarrow>
             if modified_count > 0
             then ((Message ''Company updated successfully.'', 200), s\<lparr>company := coll\<rparr>)
             else ((Message ''Company not found or no data was modified.'', 404),
                   s\<lparr>company := coll\<rparr>))"

section \<open>What a response shows\<close>

fun body_docs :: "body \<Rightarrow> doc list" where
  "body_docs (Message m) = []"
| "body_docs (Msg m) = []"
| "body_docs (Document d) = [d]"
| "body_docs (Documents ds) = ds"
| "body_docs (Login t d) = [d]"

definition no_password :: "response \<Rightarrow> bool" where
  "no_password r = list_all (\<lambda>d. \<not> has_key d ''password'') (body_docs (fst r))"

section \<open>Example data\<close>

text \<open>
  The records the tests of the repository create, a request environment with simple
  stand-ins for the two cryptographic primitives, and a fault plan with one failing
  storage call.
\<close>

definition example_env :: env where
  "example_env =
     \<lparr>now = ''2024-01-01 12:00:00.000000'', utcnow = 1704110400,
      new_oid = ''65929a80808c7ce53d8d3f2b'', gensalt = ''$2b$'',
      hashpw = (\<lambda>p salt. if length salt < 4 then None else Some (take 4 salt @ p)),
      hs256 = (\<lambda>key payload. key @ ''.'' @ fst payload)\<rparr>"

definition company_wilox :: doc where
  "company_wilox =
     [(''_id'', VOid ''609c6f2efbfeb07f8f7221a1''),
      (''creationDate'', VDate ''2024-01-01 11:00:00.000000''),
      (''name'', VStr ''wilox''), (''code'', VStr ''123'')]"

definition user_wilox :: doc where
  "user_wilox =
     [(''_id'', VOid ''5f45b40a808c7ce53d8d3f2c''),
      (''dataCreated'', VDate ''2024-01-01 11:30:00.000000''),
      (''email'', VStr ''wilox@gmail.com''), (''code'', VStr ''123'')]"

definition user_test :: doc where
  "user_test =
     [(''_id'', VOid ''5f45b40a808c7ce53d8d3f2a''),
      (''dataCreated'', VDate ''2024-01-01 11:45:00.000000''),
      (''email'', VStr ''test@example.com''), (''password'', VStr ''$2b$test123''),
      (''code'', VStr ''test123'')]"

definition fault_at :: "nat \<Rightarrow> string \<Rightarrow> faults" where
  "fault_at k e = (\<lambda>i. if i = k then Some e else None)"

section \<open>Facts about the store\<close>

lemma matches_single:
  "matches [(k, VStr c)] d = (map_of d k = Some (VStr c))"
  by (simp add: matches_def split: option.splits)

lemma count_documents_pos:
  "(0 < count_documents coll flt) = (\<exists>d \<in> set coll. matches flt d)"
  by (simp add: count_documents_def filter_empty_conv)

lemma find_one_None:
  "(find_one coll flt excl = None) = (\<forall>d \<in> set coll. \<not> matches flt d)"
proof -
  have "(find_one coll flt excl = None) = (filter (matches flt) coll = [])"
    by (simp add: find_one_def split: list.splits)
  then show ?thesis by (simp add: filter_empty_conv)
qed

lemma strip_id:
  "(if has_key d k then AList.delete k d else d) = AList.delete k d"
  by (simp add: has_key_def map_of_eq_None_iff AList.delete_id)

lemma find_one_Some:
  assumes "find_one coll flt [] = Some d"
  shows "d \<in> set coll \<and> matches flt d"
proof -
  from assms obtain ds where "filter (matches flt) coll = d # ds"
    by (auto simp: find_one_def project_def split: list.splits)
  then have "d \<in> set (filter (matches flt) coll)" by simp
  then show ?thesis by simp
qed

lemma stored_nonempty: "stored coll \<Longrightarrow> d \<in> set coll \<Longrightarrow> d \<noteq> []"
  by (auto simp: stored_def list_all_iff has_key_def)

lemma truthy_find_one:
  assumes "stored coll" and "\<exists>d \<in> set coll. matches flt d"
  shows "truthy (find_one coll flt [])"
proof -
  from assms(2) have "find_one coll flt [] \<noteq> None" by (simp add: find_one_None)
  then obtain d where d: "find_one coll flt [] = Some d" by auto
  with assms(1) have "d \<noteq> []" using find_one_Some stored_nonempty by blast
  with d show ?thesis by (simp add: truthy_def)
qed

lemma matches_field:
  "map_of u k = Some v \<Longrightarrow> matches [(k, v)] u"
  by (simp add: matches_def)

lemma has_key_update: "has_key (AList.update k v d) k' = (k' = k \<or> has_key d k')"
  by (simp add: has_key_def update_conv')

lemma has_key_Cons: "has_key ((k', v) # d) k = (k = k' \<or> has_key d k)"
  by (auto simp: has_key_def)

lemma has_key_dict_merge:
  "has_key (dict_merge base ext) k = (has_key base k \<or> has_key ext k)"
proof (induction ext arbitrary: base)
  case Nil
  then show ?case by (simp add: dict_merge_def has_key_def)
next
  case (Cons p ext)
  obtain k' v where p: "p = (k', v)" by (cases p)
  have "dict_merge base (p # ext) = dict_merge (AList.update k' v base) ext"
    by (simp add: dict_merge_def p)
  then have "has_key (dict_merge base (p # ext)) k =
      (has_key (AList.update k' v base) k \<or> has_key ext k)"
    by (simp add: Cons.IH)
  then show ?case unfolding p has_key_update has_key_Cons by blast
qed

section \<open>Deleting a company\<close>

text \<open>
  Claim C3. When the count of users returns: if some user has a \<^verbatim>\<open>code\<close> field equal
  to the requested code, \<^verbatim>\<open>delete_company\<close> answers 400 with the message of the
  referential guard and leaves the whole store, the company collection included, as it was;
  if no user has that code, the delete call returns and a company with that code exists,
  it answers 200 and the first company with that code is removed.
\<close>

theorem delete_company_guard:
  assumes "fs 0 = None"
  shows "((\<exists>u \<in> set (user s). map_of u ''code'' = Some (VStr code)) \<longrightarrow>
            delete_company fs s code =
              ((Message ''This company cannot be deleted as it has associated users.'', 400), s)) \<and>
         ((\<forall>u \<in> set (user s). map_of u ''code'' \<noteq> Some (VStr code)) \<and> fs 1 = None \<and>
          (\<exists>c \<in> set (company s). map_of c ''code'' = Some (VStr code)) \<longrightarrow>
            delete_company fs s code =
              ((Message ''Company deleted successfully.'', 200),
               s\<lparr>company := delete_first [(''code'', VStr code)] (company s)\<rparr>))"
proof (intro conjI impI)
  assume "\<exists>u \<in> set (user s). map_of u ''code'' = Some (VStr code)"
  then have "0 < count_documents (user s) [(''code'', VStr code)]"
    by (simp add: count_documents_pos matches_single)
  with assms show "delete_company fs s code =
      ((Message ''This company cannot be deleted as it has associated users.'', 400), s)"
    by (simp add: delete_company_def storage_call_def)
next
  assume h: "(\<forall>u \<in> set (user s). map_of u ''code'' \<noteq> Some (VStr code)) \<and> fs 1 = None \<and>
          (\<exists>c \<in> set (company s). map_of c ''code'' = Some (VStr code))"
  then have c0: "\<not> 0 < count_documents (user s) [(''code'', VStr code)]"
    by (simp add: count_documents_pos matches_single)
  from h have "find_one (company s) [(''code'', VStr code)] [] \<noteq> None"
    by (simp add: find_one_None matches_single)
  then have "delete_one (company s) [(''code'', VStr code)] =
      (1, delete_first [(''code'', VStr code)] (company s))"
    by (simp add: delete_one_def)
  with assms h c0 show "delete_company fs s code =
              ((Message ''Company deleted successfully.'', 200),
               s\<lparr>company := delete_first [(''code'', VStr code)] (company s)\<rparr>)"
    by (simp add: delete_company_def storage_call_def)
qed

text \<open>
  The two scenarios of the company tests: a company with code 123 and a user with the
  same code, and the company alone.
\<close>

theorem delete_company_guard_witness:
  "no_faults 0 = None \<and>
   delete_company no_faults
     \<lparr>user = [user_wilox], company = [company_wilox], acknowledged = True\<rparr> ''123'' =
     ((Message ''This company cannot be deleted as it has associated users.'', 400),
      \<lparr>user = [user_wilox], company = [company_wilox], acknowledged = True\<rparr>) \<and>
   delete_company no_faults \<lparr>user = [], company = [company_wilox], acknowledged = True\<rparr> ''123'' =
     ((Message ''Company deleted successfully.'', 200),
      \<lparr>user = [], company = [], acknowledged = True\<rparr>)"
  using
    delete_company_guard [of no_faults
      "\<lparr>user = [user_wilox], company = [company_wilox], acknowledged = True\<rparr>" "''123''"]
    delete_company_guard [of no_faults
      "\<lparr>user = [], company = [company_wilox], acknowledged = True\<rparr>" "''123''"]
  by (simp add: no_faults_def user_wilox_def company_wilox_def matches_def)

text \<open>
  Claim C10. When the count of users returns, some user has the requested code and no
  company has it, \<^verbatim>\<open>delete_company\<close> answers 400 with the message of the referential
  guard and not 404: the guard runs before the delete call, the only place where a
  missing company is noticed. With the same companies and no users the answer is 404.
\<close>

theorem delete_company_guard_first:
  assumes "fs 0 = None"
    and "\<exists>u \<in> set (user s). map_of u ''code'' = Some (VStr code)"
    and "\<forall>c \<in> set (company s). map_of c ''code'' \<noteq> Some (VStr code)"
  shows "fst (delete_company fs s code) =
           (Message ''This company cannot be deleted as it has associated users.'', 400) \<and>
         fst (delete_company fs s code) \<noteq> (Message ''Company not found.'', 404) \<and>
         (fs 1 = None \<longrightarrow>
            fst (delete_company fs (s\<lparr>user := []\<rparr>) code) = (Message ''Company not found.'', 404))"
proof -
  from assms(2) have "0 < count_documents (user s) [(''code'', VStr code)]"
    by (simp add: count_documents_pos matches_single)
  with assms(1) have a: "fst (delete_company fs s code) =
           (Message ''This company cannot be deleted as it has associated users.'', 400)"
    by (simp add: delete_company_def storage_call_def)
  from assms(3) have "find_one (company s) [(''code'', VStr code)] [] = None"
    by (simp add: find_one_None matches_single)
  then have "delete_one (company s) [(''code'', VStr code)] = (0, company s)"
    by (simp add: delete_one_def)
  with assms(1) have b: "fs 1 = None \<longrightarrow>
            fst (delete_company fs (s\<lparr>user := []\<rparr>) code) = (Message ''Company not found.'', 404)"
    by (simp add: delete_company_def storage_call_def count_documents_def)
  from a b show ?thesis by simp
qed

theorem delete_company_guard_first_witness:
  "fst (delete_company no_faults \<lparr>user = [user_wilox], company = [], acknowledged = True\<rparr> ''123'') =
     (Message ''This company cannot be deleted as it has associated users.'', 400) \<and>
   fst (delete_company no_faults \<lparr>user = [], company = [], acknowledged = True\<rparr> ''123'') =
     (Message ''Company not found.'', 404)"
  using delete_company_guard_first [of no_faults
      "\<lparr>user = [user_wilox], company = [], acknowledged = True\<rparr>" "''123''"]
  by (simp add: no_faults_def user_wilox_def)

section \<open>Updating a company\<close>

lemma update_company_404_iff:
  "(fst (update_company fs s code request_data) =
      (Message ''Company not found or no data was modified.'', 404)) =
   (\<exists>coll. storage_call fs 0
             (update_one (company s) [(''code'', VStr code)] (AList.delete ''_id'' request_data)) =
           Inr (0, coll))"
  by (auto simp: update_company_def strip_id Let_def split: sum.splits prod.splits)

lemma update_one_no_match:
  assumes "\<forall>c \<in> set coll. map_of c ''code'' \<noteq> Some (VStr code)"
  shows "update_one coll [(''code'', VStr code)] upd = Inr (0, coll)"
proof -
  from assms have "find_one coll [(''code'', VStr code)] [] = None"
    by (simp add: find_one_None matches_single)
  then show ?thesis by (simp add: update_one_def)
qed

text \<open>
  Claim C8. \<^verbatim>\<open>update_company\<close> answers 404 with the message
  "Company not found or no data was modified." exactly when its storage call, the update
  of the first company with the requested code by the request body without \<^verbatim>\<open>_id\<close>,
  returns with a modified count of zero. When the call returns and no company has the
  requested code, the count is zero, the answer is that 404 and the store is as it was.
\<close>

theorem update_company_not_found:
  "((fst (update_company fs s code request_data) =
       (Message ''Company not found or no data was modified.'', 404)) =
    (\<exists>coll. storage_call fs 0
              (update_one (company s) [(''code'', VStr code)]
                 (AList.delete ''_id'' request_data)) = Inr (0, coll))) \<and>
   (fs 0 = None \<and> (\<forall>c \<in> set (company s). map_of c ''code'' \<noteq> Some (VStr code)) \<longrightarrow>
      update_company fs s code request_data =
        ((Message ''Company not found or no data was modified.'', 404), s))"
proof (intro conjI impI)
  show "(fst (update_company fs s code request_data) =
       (Message ''Company not found or no data was modified.'', 404)) =
    (\<exists>coll. storage_call fs 0
              (update_one (company s) [(''code'', VStr code)]
                 (AList.delete ''_id'' request_data)) = Inr (0, coll))"
    by (rule update_company_404_iff)
next
  assume h: "fs 0 = None \<and> (\<forall>c \<in> set (company s). map_of c ''code'' \<noteq> Some (VStr code))"
  then have "update_one (company s) [(''code'', VStr code)] (AList.delete ''_id'' request_data) =
      Inr (0, company s)"
    by (simp add: update_one_no_match)
  with h show "update_company fs s code request_data =
        ((Message ''Company not found or no data was modified.'', 404), s)"
    by (simp add: update_company_def strip_id storage_call_def)
qed

text \<open>The scenario of the specification: an update of a company that does not exist.\<close>

theorem update_company_not_found_witness:
  "update_company no_faults \<lparr>user = [], company = [company_wilox], acknowledged = True\<rparr>
     ''doesnotexist'' [(''name'', VStr ''Updated Company'')] =
     ((Message ''Company not found or no data was modified.'', 404),
      \<lparr>user = [], company = [company_wilox], acknowledged = True\<rparr>)"
  using update_company_not_found [of no_faults
      "\<lparr>user = [], company = [company_wilox], acknowledged = True\<rparr>" "''doesnotexist''"
      "[(''name'', VStr ''Updated Company'')]"]
  by (simp add: no_faults_def company_wilox_def)

section \<open>Creating a user\<close>

lemma insert_one_result:
  assumes "insert_one oid coll d = Inr (i, coll')"
  shows "\<exists>d'. coll' = coll @ [d'] \<and> map_of d' ''_id'' = Some i \<and>
           (\<forall>k. k \<noteq> ''_id'' \<longrightarrow> has_key d' k = has_key d k) \<and>
           (\<forall>x \<in> set coll. map_of x ''_id'' \<noteq> Some i)"
proof (cases "has_key d ''_id''")
  case True
  with assms have "coll' = coll @ [d]" "i = dict_get d ''_id''"
      "\<not> list_ex (\<lambda>x. map_of x ''_id'' = Some i) coll"
    by (auto simp: insert_one_def Let_def split: if_splits)
  moreover from True \<open>i = dict_get d ''_id''\<close> have "map_of d ''_id'' = Some i"
    by (auto simp: has_key_def dict_get_def)
  ultimately show ?thesis by (auto simp: list_ex_iff)
next
  case False
  with assms have "coll' = coll @ [(''_id'', VOid oid) # d]" "i = VOid oid"
      "\<not> list_ex (\<lambda>x. map_of x ''_id'' = Some i) coll"
    by (auto simp: insert_one_def Let_def dict_get_def split: if_splits)
  then show ?thesis by (auto simp: list_ex_iff has_key_Cons)
qed

lemma find_one_inserted:
  assumes "stored coll" and "\<forall>x \<in> set coll. map_of x ''_id'' \<noteq> Some i"
    and "map_of d' ''_id'' = Some i"
  shows "find_one (coll @ [d']) [(''_id'', i)] [] = Some d'"
proof -
  have "\<And>x. x \<in> set coll \<Longrightarrow> \<not> matches [(''_id'', i)] x"
  proof -
    fix x assume x: "x \<in> set coll"
    with assms(1) obtain w where "map_of x ''_id'' = Some w"
      by (auto simp: stored_def list_all_iff has_key_def)
    with assms(2) x show "\<not> matches [(''_id'', i)] x" by (auto simp: matches_def)
  qed
  then have "filter (matches [(''_id'', i)]) coll = []" by (simp add: filter_empty_conv)
  moreover from assms(3) have "matches [(''_id'', i)] d'" by (simp add: matches_def)
  ultimately show ?thesis by (simp add: find_one_def project_def)
qed

text \<open>
  Claim C6. When the lookup by email returns and some stored user has the email of the
  request, \<^verbatim>\<open>create_user\<close> answers 400 with the message
  "User with the same email already exists" and the store is as it was: no record is
  inserted, so the users with that email are the ones there were before the call, at most
  one when there was at most one.
\<close>

theorem create_user_duplicate_email:
  assumes "fs 0 = None"
    and "stored (user s)"
    and "map_of data ''email'' = Some em"
    and "\<exists>u \<in> set (user s). map_of u ''email'' = Some em"
  shows "create_user e fs s data =
           ((Message ''User with the same email already exists'', 400), s) \<and>
         (count_documents (user s) [(''email'', em)] \<le> 1 \<longrightarrow>
            count_documents (user (snd (create_user e fs s data))) [(''email'', em)] \<le> 1)"
proof -
  from assms(3) have g: "dict_get data ''email'' = em" by (simp add: dict_get_def)
  from assms(4) have "\<exists>u \<in> set (user s). matches [(''email'', em)] u"
    using matches_field by blast
  with assms(2) have "truthy (find_one (user s) [(''email'', em)] [])"
    by (rule truthy_find_one)
  with assms(1) g have "create_user e fs s data =
           ((Message ''User with the same email already exists'', 400), s)"
    by (simp add: create_user_def storage_call_def)
  then show ?thesis by simp
qed

text \<open>The second request of the test of user creation: the same email again.\<close>

theorem create_user_duplicate_email_witness:
  "create_user example_env no_faults
     \<lparr>user = [user_wilox], company = [company_wilox], acknowledged = True\<rparr>
     [(''email'', VStr ''wilox@gmail.com''), (''password'', VStr ''test123'')] =
     ((Message ''User with the same email already exists'', 400),
      \<lparr>user = [user_wilox], company = [company_wilox], acknowledged = True\<rparr>)"
  using create_user_duplicate_email [of no_faults
      "\<lparr>user = [user_wilox], company = [company_wilox], acknowledged = True\<rparr>"
      "[(''email'', VStr ''wilox@gmail.com''), (''password'', VStr ''test123'')]"
      "VStr ''wilox@gmail.com''" example_env]
  by (simp add: no_faults_def stored_def has_key_def user_wilox_def)

text \<open>
  Claim C9. For a request body without \<^verbatim>\<open>password\<close> whose email matches no stored
  user, when the lookup and the insert return and the write is acknowledged,
  \<^verbatim>\<open>create_user\<close> answers 500 with the message "User creation error" although the
  new document is in the user collection afterwards: the re-read document has no
  \<^verbatim>\<open>password\<close> key, \<^verbatim>\<open>del created_user["password"]\<close> raises and the handler
  turns the exception into the error response. Nothing undoes the insert.
\<close>

theorem create_user_without_password:
  assumes "fs 0 = None" and "fs 1 = None" and "acknowledged s" and "stored (user s)"
    and "\<not> has_key data ''password''"
    and "\<forall>u \<in> set (user s). \<not> matches [(''email'', dict_get data ''email'')] u"
    and "insert_one (new_oid e) (user s) (dict_merge [(''dataCreated'', VDate (now e))] data) =
           Inr (i, coll)"
  shows "create_user e fs s data = ((Message ''User creation error'', 500), s\<lparr>user := coll\<rparr>) \<and>
         (\<exists>d. coll = user s @ [d] \<and> map_of d ''_id'' = Some i \<and> \<not> has_key d ''password'')"
proof -
  from assms(6) have f: "find_one (user s) [(''email'', dict_get data ''email'')] [] = None"
    by (simp add: find_one_None)
  from insert_one_result [OF assms(7)] obtain d where
    d: "coll = user s @ [d]" "map_of d ''_id'' = Some i"
       "\<forall>k. k \<noteq> ''_id'' \<longrightarrow>
          has_key d k = has_key (dict_merge [(''dataCreated'', VDate (now e))] data) k"
       "\<forall>x \<in> set (user s). map_of x ''_id'' \<noteq> Some i"
    by blast
  from d(3) have "has_key d ''password'' =
      has_key (dict_merge [(''dataCreated'', VDate (now e))] data) ''password''"
    by simp
  with assms(5) have np: "\<not> has_key d ''password''"
    by (simp add: has_key_dict_merge has_key_Cons) (simp add: has_key_def)
  from assms(4) d(4) d(2) have r: "find_one coll [(''_id'', i)] [] = Some d"
    unfolding d(1) by (rule find_one_inserted)
  from np have np': "dict_del (AList.update ''_id'' (VStr (py_str i)) d) ''password'' =
      Inl ''password''"
    by (simp add: dict_del_def has_key_update)
  from d(2) have di: "dict_item d ''_id'' = Inr i" by (simp add: dict_item_def)
  have t: "\<not> truthy None" by (simp add: truthy_def)
  have "create_user e fs s data = ((Message ''User creation error'', 500), s\<lparr>user := coll\<rparr>)"
  proof (cases "fs 2")
    case None
    show ?thesis
      unfolding create_user_def storage_call_def
      by (simp only: assms(1,2,3,5,7) f r np' di t None option.case sum.case if_True if_False
            prod.case)
  next
    case (Some err)
    show ?thesis
      unfolding create_user_def storage_call_def
      by (simp only: assms(1,2,3,5,7) f t Some option.case sum.case if_True if_False prod.case)
  qed
  with d(1,2) np show ?thesis by blast
qed

text \<open>
  The request of the company tests that associates a user with company 123: it has no
  password.
\<close>

theorem create_user_without_password_witness:
  "create_user example_env no_faults \<lparr>user = [], company = [company_wilox], acknowledged = True\<rparr>
     [(''email'', VStr ''wilox@gmail.com''), (''code'', VStr ''123'')] =
     ((Message ''User creation error'', 500),
      \<lparr>user = [[(''_id'', VOid ''65929a80808c7ce53d8d3f2b''),
                 (''dataCreated'', VDate ''2024-01-01 12:00:00.000000''),
                 (''email'', VStr ''wilox@gmail.com''), (''code'', VStr ''123'')]],
       company = [company_wilox], acknowledged = True\<rparr>)"
  using create_user_without_password [of no_faults
      "\<lparr>user = [], company = [company_wilox], acknowledged = True\<rparr>"
      "[(''email'', VStr ''wilox@gmail.com''), (''code'', VStr ''123'')]" example_env
      "VOid ''65929a80808c7ce53d8d3f2b''"
      "[[(''_id'', VOid ''65929a80808c7ce53d8d3f2b''),
         (''dataCreated'', VDate ''2024-01-01 12:00:00.000000''),
         (''email'', VStr ''wilox@gmail.com''), (''code'', VStr ''123'')]]"]
  by (simp add: no_faults_def stored_def has_key_def insert_one_def dict_merge_def dict_get_def
        example_env_def)

section \<open>Logging in\<close>

text \<open>
  Claim C7, as stated, fails: a body without the \<^verbatim>\<open>password\<close> key and with an email
  that no user has is answered with 401 "Invalid credentials", not with 500
  "Authentication error". The conjunction \<^verbatim>\<open>user and ...\<close> never looks at the
  password when no user was found.
\<close>

theorem login_user_missing_password_counterexample:
  "\<not> has_key [(''email'', VStr ''test@example.com'')] ''password'' \<and>
   login_user example_env no_faults \<lparr>user = [], company = [], acknowledged = True\<rparr>
     [(''email'', VStr ''test@example.com'')] = (Message ''Invalid credentials'', 401) \<and>
   login_user example_env no_faults \<lparr>user = [], company = [], acknowledged = True\<rparr>
     [(''email'', VStr ''test@example.com'')] \<noteq> (Message ''Authentication error'', 500)"
  by (simp add: login_user_def storage_call_def no_faults_def find_one_def truthy_def
        has_key_def)

lemma check_password_hash_None:
  "\<not> has_key data ''password'' \<Longrightarrow>
     \<exists>err. check_password_hash e h (dict_get data ''password'') = Inl err"
  by (simp add: has_key_def dict_get_def check_password_hash_def split: val.splits)

text \<open>
  Claim C7, amended. When the lookup by email returns: if no user matches the email of
  the request the answer is 401 "Invalid credentials", with or without a password in the
  body; if the first user with that email has a password hash that the password of the
  request does not match, the answer is 401 "Invalid credentials"; if some user has that
  email and the body has no \<^verbatim>\<open>password\<close> key, the answer is 500
  "Authentication error".
\<close>

theorem login_user_failures:
  assumes "fs 0 = None" and "stored (user s)"
  shows "((\<forall>u \<in> set (user s). \<not> matches [(''email'', dict_get data ''email'')] u) \<longrightarrow>
            login_user e fs s data = (Message ''Invalid credentials'', 401)) \<and>
         (\<forall>u h. find_one (user s) [(''email'', dict_get data ''email'')] [] = Some u \<and>
                map_of u ''password'' = Some h \<and>
                check_password_hash e h (dict_get data ''password'') = Inr False \<longrightarrow>
            login_user e fs s data = (Message ''Invalid credentials'', 401)) \<and>
         ((\<exists>u \<in> set (user s). matches [(''email'', dict_get data ''email'')] u) \<and>
          \<not> has_key data ''password'' \<longrightarrow>
            login_user e fs s data = (Message ''Authentication error'', 500))"
proof (intro conjI allI impI)
  assume "\<forall>u \<in> set (user s). \<not> matches [(''email'', dict_get data ''email'')] u"
  then have "find_one (user s) [(''email'', dict_get data ''email'')] [] = None"
    by (simp add: find_one_None)
  with assms(1) show "login_user e fs s data = (Message ''Invalid credentials'', 401)"
    by (simp add: login_user_def storage_call_def truthy_def)
next
  fix u h
  assume h: "find_one (user s) [(''email'', dict_get data ''email'')] [] = Some u \<and>
       map_of u ''password'' = Some h \<and>
       check_password_hash e h (dict_get data ''password'') = Inr False"
  then have "dict_item u ''password'' = Inr h" by (simp add: dict_item_def)
  with assms(1) h show "login_user e fs s data = (Message ''Invalid credentials'', 401)"
    by (simp add: login_user_def storage_call_def)
next
  assume h: "(\<exists>u \<in> set (user s). matches [(''email'', dict_get data ''email'')] u) \<and>
          \<not> has_key data ''password''"
  with assms(2) have t: "truthy (find_one (user s) [(''email'', dict_get data ''email'')] [])"
    by (simp add: truthy_find_one)
  then obtain u where u: "find_one (user s) [(''email'', dict_get data ''email'')] [] = Some u"
    by (auto simp: truthy_def split: option.splits)
  show "login_user e fs s data = (Message ''Authentication error'', 500)"
  proof (cases "dict_item u ''password''")
    case (Inl err)
    with assms(1) t u show ?thesis
      by (simp add: login_user_def storage_call_def)
  next
    case (Inr pw_hash)
    from h obtain err where
      "check_password_hash e pw_hash (dict_get data ''password'') = Inl err"
      using check_password_hash_None by blast
    with assms(1) t u Inr show ?thesis
      by (simp add: login_user_def storage_call_def)
  qed
qed

text \<open>The three failing logins of the login test.\<close>

theorem login_user_failures_witness:
  "login_user example_env no_faults \<lparr>user = [user_test], company = [], acknowledged = True\<rparr>
     [(''email'', VStr ''nobody@example.com''), (''password'', VStr ''test123'')] =
     (Message ''Invalid credentials'', 401) \<and>
   login_user example_env no_faults \<lparr>user = [user_test], company = [], acknowledged = True\<rparr>
     [(''email'', VStr ''test@example.com''), (''password'', VStr ''wrongpassword'')] =
     (Message ''Invalid credentials'', 401) \<and>
   login_user example_env no_faults \<lparr>user = [user_test], company = [], acknowledged = True\<rparr>
     [(''email'', VStr ''test@example.com''), (''passwords'', VStr ''wrongpassword'')] =
     (Message ''Authentication error'', 500)"
  using
    login_user_failures [of no_faults
      "\<lparr>user = [user_test], company = [], acknowledged = True\<rparr>"
      "[(''email'', VStr ''nobody@example.com''), (''password'', VStr ''test123'')]" example_env]
    login_user_failures [of no_faults
      "\<lparr>user = [user_test], company = [], acknowledged = True\<rparr>"
      "[(''email'', VStr ''test@example.com''), (''password'', VStr ''wrongpassword'')]"
      example_env]
    login_user_failures [of no_faults
      "\<lparr>user = [user_test], company = [], acknowledged = True\<rparr>"
      "[(''email'', VStr ''test@example.com''), (''passwords'', VStr ''wrongpassword'')]"
      example_env]
  by (simp add: no_faults_def stored_def has_key_def user_test_def dict_get_def matches_def
        find_one_def project_def check_password_hash_def example_env_def)

section \<open>Reading users and companies\<close>

lemma has_key_delete: "has_key (AList.delete k d) k' = (k' \<noteq> k \<and> has_key d k')"
  by (simp add: has_key_def delete_conv')

lemma has_key_project: "has_key (project excl d) k = (k \<notin> set excl \<and> has_key d k)"
proof (induction excl arbitrary: d)
  case Nil
  then show ?case by (simp add: project_def)
next
  case (Cons x excl)
  have "project (x # excl) d = project excl (AList.delete x d)"
    by (simp add: project_def)
  then show ?case using Cons.IH [of "AList.delete x d"]
    by (auto simp: has_key_delete)
qed

lemma has_key_stringify_id: "has_key (stringify_id d) k = has_key d k"
  by (auto simp: stringify_id_def has_key_update)

lemma find_one_projected:
  "find_one coll flt excl = Some d \<Longrightarrow> \<forall>k \<in> set excl. \<not> has_key d k"
  by (auto simp: find_one_def has_key_project split: list.splits)

lemma find_docs_projected:
  "d \<in> set (find_docs coll flt excl) \<Longrightarrow> \<forall>k \<in> set excl. \<not> has_key d k"
  by (auto simp: find_docs_def has_key_project)

lemma get_all_users_no_password:
  "case get_all_users fs s of Inl err \<Rightarrow> True | Inr r \<Rightarrow> no_password r"
  using find_docs_projected [of _ "user s" "[]" "[''password'']"]
  by (auto simp: get_all_users_def storage_call_def no_password_def list_all_iff
        has_key_stringify_id split: option.splits)

lemma get_all_companies_no_password:
  "case get_all_companies fs s of Inl err \<Rightarrow> True | Inr r \<Rightarrow> no_password r"
  using find_docs_projected [of _ "company s" "[]" "[''password'']"]
  by (auto simp: get_all_companies_def storage_call_def no_password_def list_all_iff
        has_key_stringify_id split: option.splits)

lemma get_user_code_no_password: "no_password (get_user_code fs s code)"
  using find_one_projected [of "user s" "[(''code'', VStr code)]" "[''_id'', ''password'']"]
  by (auto simp: get_user_code_def storage_call_def no_password_def split: option.splits)

lemma get_company_code_no_password: "no_password (get_company_code fs s code)"
  using find_one_projected [of "company s" "[(''code'', VStr code)]" "[''_id'', ''password'']"]
  by (auto simp: get_company_code_def storage_call_def no_password_def split: option.splits)

lemma get_user_profile_no_password: "no_password (get_user_profile e fs s bearer)"
proof (cases "jwt_required e bearer")
  case (Inl refused)
  then have "\<exists>m c. refused = (Msg m, c)"
    by (auto simp: jwt_required_def split: option.splits sum.splits token_error.splits)
  with Inl show ?thesis by (auto simp: get_user_profile_def no_password_def)
next
  case (Inr current_user_id)
  show ?thesis
  proof (cases "ObjectId current_user_id")
    case (Inl err)
    with Inr show ?thesis by (simp add: get_user_profile_def no_password_def)
  next
    case oid: (Inr oid)
    with Inr show ?thesis
      using find_one_projected [of "user s" "[(''_id'', oid)]" "[''_id'', ''password'']"]
      by (auto simp: get_user_profile_def storage_call_def no_password_def
            split: option.splits)
  qed
qed

text \<open>
  Claim C5. Whatever the store holds and whatever the storage calls do, no document in
  the response of \<^verbatim>\<open>get_all_users\<close>, \<^verbatim>\<open>get_user_code\<close>,
  \<^verbatim>\<open>get_user_profile\<close>, \<^verbatim>\<open>get_all_companies\<close> or \<^verbatim>\<open>get_company_code\<close> has a
  \<^verbatim>\<open>password\<close> key: every one of them reads through a projection that leaves the
  field out, and the other responses carry a message only. (The two list handlers return
  no response of their own when their storage call raises.)
\<close>

theorem reads_show_no_password:
  "(case get_all_users fs s of Inl err \<Rightarrow> True | Inr r \<Rightarrow> no_password r) \<and>
   no_password (get_user_code fs s code) \<and>
   no_password (get_user_profile e fs s bearer) \<and>
   (case get_all_companies fs s of Inl err \<Rightarrow> True | Inr r \<Rightarrow> no_password r) \<and>
   no_password (get_company_code fs s code)"
  by (intro conjI get_all_users_no_password get_user_code_no_password
        get_user_profile_no_password get_all_companies_no_password
        get_company_code_no_password)

text \<open>A stored user with a password hash, read by code and in the list of all users.\<close>

theorem reads_show_no_password_witness:
  "has_key user_test ''password'' \<and>
   no_password
     (get_user_code no_faults \<lparr>user = [user_test], company = [], acknowledged = True\<rparr>
        ''test123'') \<and>
   (case get_all_users no_faults \<lparr>user = [user_test], company = [], acknowledged = True\<rparr> of
      Inl err \<Rightarrow> True
    | Inr r \<Rightarrow> no_password r)"
  using reads_show_no_password [of no_faults
      "\<lparr>user = [user_test], company = [], acknowledged = True\<rparr>" "''test123''"
      example_env None]
  by (simp add: has_key_def user_test_def)

section \<open>What a failing storage call shows\<close>

lemma create_user_500:
  assumes "snd (fst (create_user e fs s data)) = 500"
  shows "fst (fst (create_user e fs s data)) \<in>
           {Message ''User creation error'', Message ''User creation failed''}"
proof -
  have "snd (fst (create_user e fs s data)) = 500 \<longrightarrow>
      fst (fst (create_user e fs s data)) = Message ''User creation error'' \<or>
      fst (fst (create_user e fs s data)) = Message ''User creation failed''"
    unfolding create_user_def
    by (simp split: sum.split option.split prod.split)
  with assms show ?thesis by simp
qed

lemma create_company_500:
  "snd (fst (create_company e fs s data)) = 500 \<Longrightarrow>
     fst (fst (create_company e fs s data)) \<in>
       {Message ''Company creation error'', Message ''Company creation failed''}"
  by (auto simp: create_company_def split: sum.splits option.splits prod.splits if_splits)

lemma login_user_500:
  "snd (login_user e fs s data) = 500 \<Longrightarrow>
     fst (login_user e fs s data) = Message ''Authentication error''"
  by (auto simp: login_user_def Let_def split: sum.splits option.splits if_splits)

lemma get_user_profile_500:
  "snd (get_user_profile e fs s bearer) = 500 \<Longrightarrow>
     fst (get_user_profile e fs s bearer) = Message ''Error getting user profile''"
  by (auto simp: get_user_profile_def jwt_required_def
           split: sum.splits option.splits if_splits token_error.splits)

lemma get_user_code_500:
  "snd (get_user_code fs s code) = 500 \<Longrightarrow>
     fst (get_user_code fs s code) = Message ''Error getting user profile''"
  by (auto simp: get_user_code_def split: sum.splits option.splits if_splits)

lemma get_company_code_500:
  "snd (get_company_code fs s code) = 500 \<Longrightarrow>
     fst (get_company_code fs s code) = Message ''Error retrieving the company''"
  by (auto simp: get_company_code_def split: sum.splits option.splits if_splits)

lemma update_company_500:
  "snd (fst (update_company fs s code data)) = 500 \<Longrightarrow>
     fst (fst (update_company fs s code data)) = Message ''Error updating the company.''"
  by (auto simp: update_company_def Let_def split: sum.splits prod.splits if_splits)

lemma delete_user_500:
  "snd (fst (delete_user fs s code)) = 500 \<Longrightarrow>
     \<exists>err. fst (fst (delete_user fs s code)) = Message (''Error deleting the user: '' @ err)"
  by (auto simp: delete_user_def split: sum.splits prod.splits if_splits)

lemma update_user_500:
  "snd (fst (update_user e fs s code data)) = 500 \<Longrightarrow>
     \<exists>err. fst (fst (update_user e fs s code data)) =
       Message (''Error updating the user: '' @ err)"
  by (auto simp: update_user_def split: sum.splits prod.splits if_splits)

lemma delete_company_500:
  "snd (fst (delete_company fs s code)) = 500 \<Longrightarrow>
     \<exists>err. fst (fst (delete_company fs s code)) =
       Message (''Error deleting the company: '' @ err)"
  by (auto simp: delete_company_def split: sum.splits prod.splits if_splits)

lemma first_call_raises:
  assumes "fs 0 = Some err"
  shows "delete_user fs s code = ((Message (''Error deleting the user: '' @ err), 500), s)"
    and "update_user e fs s code data =
           ((Message (''Error updating the user: '' @ err), 500), s)"
    and "delete_company fs s code =
           ((Message (''Error deleting the company: '' @ err), 500), s)"
    and "create_user e fs s data = ((Message ''User creation error'', 500), s)"
    and "login_user e fs s data = (Message ''Authentication error'', 500)"
    and "get_user_code fs s code = (Message ''Error getting user profile'', 500)"
    and "create_company e fs s data = ((Message ''Company creation error'', 500), s)"
    and "get_company_code fs s code = (Message ''Error retrieving the company'', 500)"
    and "update_company fs s code data = ((Message ''Error updating the company.'', 500), s)"
    and "get_all_users fs s = Inl err"
    and "get_all_companies fs s = Inl err"
  using assms
  by (simp_all add: delete_user_def update_user_def delete_company_def create_user_def
        login_user_def get_user_code_def create_company_def get_company_code_def
        update_company_def get_all_users_def get_all_companies_def storage_call_def)

lemma update_user_call_1:
  assumes "fs 0 = None"
    and "truthy (find_one (user s) [(''code'', VStr code)] [])"
    and "hashed_body e data = Inr data'"
    and "storage_call fs 1 (update_one (user s) [(''code'', VStr code)] data') = Inl err"
  shows "update_user e fs s code data =
           ((Message (''Error updating the user: '' @ err), 500), s)"
  using assms unfolding update_user_def hashed_body_def
  by (simp add: storage_call_def)

lemma delete_company_call_1:
  assumes "fs 0 = None"
    and "count_documents (user s) [(''code'', VStr code)] = 0"
    and "fs 1 = Some err"
  shows "delete_company fs s code =
           ((Message (''Error deleting the company: '' @ err), 500), s)"
  using assms by (simp add: delete_company_def storage_call_def)

lemma create_user_call_1:
  assumes "fs 0 = None"
    and "\<not> truthy (find_one (user s) [(''email'', dict_get data ''email'')] [])"
    and "hashed_body e data = Inr data'"
    and "storage_call fs 1
           (insert_one (new_oid e) (user s)
              (dict_merge [(''dataCreated'', VDate (now e))] data')) = Inl err"
  shows "create_user e fs s data = ((Message ''User creation error'', 500), s)"
  using assms unfolding create_user_def hashed_body_def
  by (simp add: storage_call_def)

lemma create_user_call_2:
  assumes "fs 0 = None"
    and "\<not> truthy (find_one (user s) [(''email'', dict_get data ''email'')] [])"
    and "hashed_body e data = Inr data'"
    and "storage_call fs 1
           (insert_one (new_oid e) (user s)
              (dict_merge [(''dataCreated'', VDate (now e))] data')) = Inr (i, coll)"
    and "acknowledged s"
    and "fs 2 = Some err"
  shows "create_user e fs s data =
           ((Message ''User creation error'', 500), s\<lparr>user := coll\<rparr>)"
  using assms unfolding create_user_def hashed_body_def
  by (simp add: storage_call_def)

lemma create_company_call_0:
  assumes "storage_call fs 0
             (insert_one (new_oid e) (company s)
                (dict_merge [(''creationDate'', VDate (now e))] data)) = Inl err"
  shows "create_company e fs s data = ((Message ''Company creation error'', 500), s)"
  using assms by (simp add: create_company_def)

lemma create_company_call_1:
  assumes "storage_call fs 0
             (insert_one (new_oid e) (company s)
                (dict_merge [(''creationDate'', VDate (now e))] data)) = Inr (i, coll)"
    and "acknowledged s"
    and "fs 1 = Some err"
  shows "create_company e fs s data =
           ((Message ''Company creation error'', 500), s\<lparr>company := coll\<rparr>)"
  using assms by (simp add: create_company_def) (simp add: storage_call_def)

lemma get_user_profile_call_0:
  assumes "jwt_required e bearer = Inr uid"
    and "ObjectId uid = Inr oid"
    and "fs 0 = Some err"
  shows "get_user_profile e fs s bearer = (Message ''Error getting user profile'', 500)"
  using assms by (simp add: get_user_profile_def storage_call_def)

lemma update_company_call_0:
  assumes "storage_call fs 0
             (update_one (company s) [(''code'', VStr code)] (AList.delete ''_id'' data)) =
           Inl err"
  shows "update_company fs s code data = ((Message ''Error updating the company.'', 500), s)"
  using assms by (simp add: update_company_def strip_id)

text \<open>
  Claim C4, as stated, fails: when \<^verbatim>\<open>delete_one\<close> raises, the message of
  \<^verbatim>\<open>delete_user\<close> ends with the text of the exception, as the test
  \<^verbatim>\<open>test_delete_user_internal_error\<close> expects, so it changes with the exception.
\<close>

theorem delete_user_leaks_exception_counterexample:
  "delete_user (fault_at 0 ''Simulated database error'')
     \<lparr>user = [user_test], company = [], acknowledged = True\<rparr> ''test123'' =
     ((Message (''Error deleting the user: '' @ ''Simulated database error''), 500),
      \<lparr>user = [user_test], company = [], acknowledged = True\<rparr>) \<and>
   fst (delete_user (fault_at 0 ''connection refused by 10.0.0.7:27017'')
     \<lparr>user = [user_test], company = [], acknowledged = True\<rparr> ''test123'') \<noteq>
   fst (delete_user (fault_at 0 ''Simulated database error'')
     \<lparr>user = [user_test], company = [], acknowledged = True\<rparr> ''test123'')"
  by (simp add: delete_user_def storage_call_def fault_at_def)

text \<open>
  Claim C4, amended. Whichever storage call of a handler raises, with exception text
  \<open>err\<close>, the response has status 500 and the store keeps what the earlier calls of the
  request wrote. In \<^verbatim>\<open>create_user\<close> (lookup, insert, re-read), \<^verbatim>\<open>login_user\<close>,
  \<^verbatim>\<open>get_user_profile\<close>, \<^verbatim>\<open>get_user_code\<close>, \<^verbatim>\<open>create_company\<close> (insert,
  re-read), \<^verbatim>\<open>get_company_code\<close> and \<^verbatim>\<open>update_company\<close> the message is fixed
  and does not depend on \<open>err\<close>. In \<^verbatim>\<open>delete_user\<close>, \<^verbatim>\<open>update_user\<close> (lookup,
  update) and \<^verbatim>\<open>delete_company\<close> (count, delete) the message is a fixed prefix
  followed by \<open>err\<close>. \<^verbatim>\<open>get_all_users\<close> and \<^verbatim>\<open>get_all_companies\<close> give no
  response: the exception leaves them. Moreover, whatever the storage calls do, a
  response with status 500 has one of the fixed messages in the first group and the
  fixed prefix in the second.
\<close>

theorem failure_messages:
  "(fs 0 = Some err \<longrightarrow>
      create_user e fs s data = ((Message ''User creation error'', 500), s) \<and>
      login_user e fs s data = (Message ''Authentication error'', 500) \<and>
      get_user_code fs s code = (Message ''Error getting user profile'', 500) \<and>
      create_company e fs s data = ((Message ''Company creation error'', 500), s) \<and>
      get_company_code fs s code = (Message ''Error retrieving the company'', 500) \<and>
      update_company fs s code data = ((Message ''Error updating the company.'', 500), s) \<and>
      delete_user fs s code = ((Message (''Error deleting the user: '' @ err), 500), s) \<and>
      update_user e fs s code data =
        ((Message (''Error updating the user: '' @ err), 500), s) \<and>
      delete_company fs s code =
        ((Message (''Error deleting the company: '' @ err), 500), s) \<and>
      get_all_users fs s = Inl err \<and>
      get_all_companies fs s = Inl err) \<and>
   (snd (fst (create_user e fs s data)) = 500 \<longrightarrow>
      fst (fst (create_user e fs s data)) \<in>
        {Message ''User creation error'', Message ''User creation failed''}) \<and>
   (snd (login_user e fs s data) = 500 \<longrightarrow>
      fst (login_user e fs s data) = Message ''Authentication error'') \<and>
   (snd (get_user_profile e fs s bearer) = 500 \<longrightarrow>
      fst (get_user_profile e fs s bearer) = Message ''Error getting user profile'') \<and>
   (snd (get_user_code fs s code) = 500 \<longrightarrow>
      fst (get_user_code fs s code) = Message ''Error getting user profile'') \<and>
   (snd (fst (create_company e fs s data)) = 500 \<longrightarrow>
      fst (fst (create_company e fs s data)) \<in>
        {Message ''Company creation error'', Message ''Company creation failed''}) \<and>
   (snd (get_company_code fs s code) = 500 \<longrightarrow>
      fst (get_company_code fs s code) = Message ''Error retrieving the company'') \<and>
   (snd (fst (update_company fs s code data)) = 500 \<longrightarrow>
      fst (fst (update_company fs s code data)) = Message ''Error updating the company.'') \<and>
   (snd (fst (delete_user fs s code)) = 500 \<longrightarrow>
      (\<exists>x. fst (fst (delete_user fs s code)) = Message (''Error deleting the user: '' @ x))) \<and>
   (snd (fst (update_user e fs s code data)) = 500 \<longrightarrow>
      (\<exists>x. fst (fst (update_user e fs s code data)) =
         Message (''Error updating the user: '' @ x))) \<and>
   (snd (fst (delete_company fs s code)) = 500 \<longrightarrow>
      (\<exists>x. fst (fst (delete_company fs s code)) =
         Message (''Error deleting the company: '' @ x))) \<and>
   (fs 0 = None \<and> \<not> truthy (find_one (user s) [(''email'', dict_get data ''email'')] []) \<and>
    hashed_body e data = Inr data' \<and>
    storage_call fs 1
      (insert_one (new_oid e) (user s)
         (dict_merge [(''dataCreated'', VDate (now e))] data')) = Inl err \<longrightarrow>
      create_user e fs s data = ((Message ''User creation error'', 500), s)) \<and>
   (fs 0 = None \<and> \<not> truthy (find_one (user s) [(''email'', dict_get data ''email'')] []) \<and>
    hashed_body e data = Inr data' \<and>
    storage_call fs 1
      (insert_one (new_oid e) (user s)
         (dict_merge [(''dataCreated'', VDate (now e))] data')) = Inr (i, coll) \<and>
    acknowledged s \<and> fs 2 = Some err \<longrightarrow>
      create_user e fs s data =
        ((Message ''User creation error'', 500), s\<lparr>user := coll\<rparr>)) \<and>
   (jwt_required e bearer = Inr uid \<and> ObjectId uid = Inr oid \<and> fs 0 = Some err \<longrightarrow>
      get_user_profile e fs s bearer = (Message ''Error getting user profile'', 500)) \<and>
   (storage_call fs 0
      (insert_one (new_oid e) (company s)
         (dict_merge [(''creationDate'', VDate (now e))] data)) = Inl err \<longrightarrow>
      create_company e fs s data = ((Message ''Company creation error'', 500), s)) \<and>
   (storage_call fs 0
      (insert_one (new_oid e) (company s)
         (dict_merge [(''creationDate'', VDate (now e))] data)) = Inr (i, coll) \<and>
    acknowledged s \<and> fs 1 = Some err \<longrightarrow>
      create_company e fs s data =
        ((Message ''Company creation error'', 500), s\<lparr>company := coll\<rparr>)) \<and>
   (storage_call fs 0
      (update_one (company s) [(''code'', VStr code)] (AList.delete ''_id'' data)) =
      Inl err \<longrightarrow>
      update_company fs s code data = ((Message ''Error updating the company.'', 500), s)) \<and>
   (fs 0 = None \<and> truthy (find_one (user s) [(''code'', VStr code)] []) \<and>
    hashed_body e data = Inr data' \<and>
    storage_call fs 1 (update_one (user s) [(''code'', VStr code)] data') = Inl err \<longrightarrow>
      update_user e fs s code data =
        ((Message (''Error updating the user: '' @ err), 500), s)) \<and>
   (fs 0 = None \<and> count_documents (user s) [(''code'', VStr code)] = 0 \<and>
    fs 1 = Some err \<longrightarrow>
      delete_company fs s code =
        ((Message (''Error deleting the company: '' @ err), 500), s))"
proof -
  have first: "fs 0 = Some err \<longrightarrow>
      create_user e fs s data = ((Message ''User creation error'', 500), s) \<and>
      login_user e fs s data = (Message ''Authentication error'', 500) \<and>
      get_user_code fs s code = (Message ''Error getting user profile'', 500) \<and>
      create_company e fs s data = ((Message ''Company creation error'', 500), s) \<and>
      get_company_code fs s code = (Message ''Error retrieving the company'', 500) \<and>
      update_company fs s code data = ((Message ''Error updating the company.'', 500), s) \<and>
      delete_user fs s code = ((Message (''Error deleting the user: '' @ err), 500), s) \<and>
      update_user e fs s code data =
        ((Message (''Error updating the user: '' @ err), 500), s) \<and>
      delete_company fs s code =
        ((Message (''Error deleting the company: '' @ err), 500), s) \<and>
      get_all_users fs s = Inl err \<and>
      get_all_companies fs s = Inl err"
    by (intro impI conjI) (simp_all only: first_call_raises)
  have s1: "snd (fst (create_user e fs s data)) = 500 \<longrightarrow>
       fst (fst (create_user e fs s data)) \<in>
         {Message ''User creation error'', Message ''User creation failed''}"
    by (intro impI, rule create_user_500, assumption)
  have s2: "snd (login_user e fs s data) = 500 \<longrightarrow>
       fst (login_user e fs s data) = Message ''Authentication error''"
    by (intro impI, rule login_user_500, assumption)
  have s3: "snd (get_user_profile e fs s bearer) = 500 \<longrightarrow>
       fst (get_user_profile e fs s bearer) = Message ''Error getting user profile''"
    by (intro impI, rule get_user_profile_500, assumption)
  have s4: "snd (get_user_code fs s code) = 500 \<longrightarrow>
       fst (get_user_code fs s code) = Message ''Error getting user profile''"
    by (intro impI, rule get_user_code_500, assumption)
  have s5: "snd (fst (create_company e fs s data)) = 500 \<longrightarrow>
       fst (fst (create_company e fs s data)) \<in>
         {Message ''Company creation error'', Message ''Company creation failed''}"
    by (intro impI, rule create_company_500, assumption)
  have s6: "snd (get_company_code fs s code) = 500 \<longrightarrow>
       fst (get_company_code fs s code) = Message ''Error retrieving the company''"
    by (intro impI, rule get_company_code_500, assumption)
  have s7: "snd (fst (update_company fs s code data)) = 500 \<longrightarrow>
       fst (fst (update_company fs s code data)) = Message ''Error updating the company.''"
    by (intro impI, rule update_company_500, assumption)
  have s8: "snd (fst (delete_user fs s code)) = 500 \<longrightarrow>
       (\<exists>x. fst (fst (delete_user fs s code)) = Message (''Error deleting the user: '' @ x))"
    by (intro impI, rule delete_user_500, assumption)
  have s9: "snd (fst (update_user e fs s code data)) = 500 \<longrightarrow>
       (\<exists>x. fst (fst (update_user e fs s code data)) =
          Message (''Error updating the user: '' @ x))"
    by (intro impI, rule update_user_500, assumption)
  have s10: "snd (fst (delete_company fs s code)) = 500 \<longrightarrow>
       (\<exists>x. fst (fst (delete_company fs s code)) =
          Message (''Error deleting the company: '' @ x))"
    by (intro impI, rule delete_company_500, assumption)
  have l1: "fs 0 = None \<and>
     \<not> truthy (find_one (user s) [(''email'', dict_get data ''email'')] []) \<and>
     hashed_body e data = Inr data' \<and>
     storage_call fs 1
       (insert_one (new_oid e) (user s)
          (dict_merge [(''dataCreated'', VDate (now e))] data')) = Inl err \<longrightarrow>
       create_user e fs s data = ((Message ''User creation error'', 500), s)"
    by (intro impI, elim conjE, rule create_user_call_1, assumption+)
  have l2: "fs 0 = None \<and>
     \<not> truthy (find_one (user s) [(''email'', dict_get data ''email'')] []) \<and>
     hashed_body e data = Inr data' \<and>
     storage_call fs 1
       (insert_one (new_oid e) (user s)
          (dict_merge [(''dataCreated'', VDate (now e))] data')) = Inr (i, coll) \<and>
     acknowledged s \<and> fs 2 = Some err \<longrightarrow>
       create_user e fs s data =
         ((Message ''User creation error'', 500), s\<lparr>user := coll\<rparr>)"
    by (intro impI, elim conjE, rule create_user_call_2, assumption+)
  have l3: "jwt_required e bearer = Inr uid \<and> ObjectId uid = Inr oid \<and> fs 0 = Some err \<longrightarrow>
       get_user_profile e fs s bearer = (Message ''Error getting user profile'', 500)"
    by (intro impI, elim conjE, rule get_user_profile_call_0, assumption+)
  have l4: "storage_call fs 0
       (insert_one (new_oid e) (company s)
          (dict_merge [(''creationDate'', VDate (now e))] data)) = Inl err \<longrightarrow>
       create_company e fs s data = ((Message ''Company creation error'', 500), s)"
    by (intro impI, rule create_company_call_0, assumption)
  have l5: "storage_call fs 0
       (insert_one (new_oid e) (company s)
          (dict_merge [(''creationDate'', VDate (now e))] data)) = Inr (i, coll) \<and>
     acknowledged s \<and> fs 1 = Some err \<longrightarrow>
       create_company e fs s data =
         ((Message ''Company creation error'', 500), s\<lparr>company := coll\<rparr>)"
    by (intro impI, elim conjE, rule create_company_call_1, assumption+)
  have l6: "storage_call fs 0
       (update_one (company s) [(''code'', VStr code)] (AList.delete ''_id'' data)) =
       Inl err \<longrightarrow>
       update_company fs s code data = ((Message ''Error updating the company.'', 500), s)"
    by (intro impI, rule update_company_call_0, assumption)
  have l7: "fs 0 = None \<and> truthy (find_one (user s) [(''code'', VStr code)] []) \<and>
     hashed_body e data = Inr data' \<and>
     storage_call fs 1 (update_one (user s) [(''code'', VStr code)] data') = Inl err \<longrightarrow>
       update_user e fs s code data =
         ((Message (''Error updating the user: '' @ err), 500), s)"
    by (intro impI, elim conjE, rule update_user_call_1, assumption+)
  have l8: "fs 0 = None \<and> count_documents (user s) [(''code'', VStr code)] = 0 \<and>
     fs 1 = Some err \<longrightarrow>
       delete_company fs s code =
         ((Message (''Error deleting the company: '' @ err), 500), s)"
    by (intro impI, elim conjE, rule delete_company_call_1, assumption+)
  show ?thesis
    by (rule conjI [OF first], rule conjI [OF s1], rule conjI [OF s2], rule conjI [OF s3],
        rule conjI [OF s4], rule conjI [OF s5], rule conjI [OF s6], rule conjI [OF s7],
        rule conjI [OF s8], rule conjI [OF s9], rule conjI [OF s10], rule conjI [OF l1],
        rule conjI [OF l2], rule conjI [OF l3], rule conjI [OF l4], rule conjI [OF l5],
        rule conjI [OF l6], rule conjI [OF l7], rule l8)
qed

text \<open>
  The patched storage calls of the tests: a failing lookup, a failing insert and a failing
  update.
\<close>

theorem failure_messages_witness:
  "get_user_code (fault_at 0 ''Simulated database error'')
     \<lparr>user = [user_test], company = [], acknowledged = True\<rparr> ''test123'' =
     (Message ''Error getting user profile'', 500) \<and>
   create_user example_env (fault_at 1 ''Simulated database insertion error'')
     \<lparr>user = [user_test], company = [], acknowledged = True\<rparr>
     [(''email'', VStr ''another@example.com''), (''password'', VStr ''test123'')] =
     ((Message ''User creation error'', 500),
      \<lparr>user = [user_test], company = [], acknowledged = True\<rparr>) \<and>
   update_user example_env (fault_at 1 ''Simulated database error'')
     \<lparr>user = [user_test], company = [], acknowledged = True\<rparr> ''test123''
     [(''email'', VStr ''updated@example.com''), (''password'', VStr ''updated123'')] =
     ((Message ''Error updating the user: Simulated database error'', 500),
      \<lparr>user = [user_test], company = [], acknowledged = True\<rparr>)"
proof -
  have a: "get_user_code (fault_at 0 ''Simulated database error'')
     \<lparr>user = [user_test], company = [], acknowledged = True\<rparr> ''test123'' =
     (Message ''Error getting user profile'', 500)"
    using failure_messages [where fs = "fault_at 0 ''Simulated database error''"
        and err = "''Simulated database error''" and e = example_env
        and s = "\<lparr>user = [user_test], company = [], acknowledged = True\<rparr>"
        and data = "[]" and code = "''test123''" and bearer = None and data' = "[]"
        and i = VNull and coll = "[]" and uid = "[]" and oid = VNull]
    by (simp add: fault_at_def)
  have b: "create_user example_env (fault_at 1 ''Simulated database insertion error'')
     \<lparr>user = [user_test], company = [], acknowledged = True\<rparr>
     [(''email'', VStr ''another@example.com''), (''password'', VStr ''test123'')] =
     ((Message ''User creation error'', 500),
      \<lparr>user = [user_test], company = [], acknowledged = True\<rparr>)"
    using failure_messages [where fs = "fault_at 1 ''Simulated database insertion error''"
        and err = "''Simulated database insertion error''" and e = example_env
        and s = "\<lparr>user = [user_test], company = [], acknowledged = True\<rparr>"
        and data = "[(''email'', VStr ''another@example.com''), (''password'', VStr ''test123'')]"
        and code = "''test123''" and bearer = None
        and data' = "[(''email'', VStr ''another@example.com''),
                      (''password'', VStr ''$2b$test123'')]"
        and i = VNull and coll = "[]" and uid = "[]" and oid = VNull]
    by (simp add: fault_at_def storage_call_def hashed_body_def generate_password_hash_def
          has_key_def dict_get_def truthy_def find_one_def matches_def user_test_def
          example_env_def)
  have c: "update_user example_env (fault_at 1 ''Simulated database error'')
     \<lparr>user = [user_test], company = [], acknowledged = True\<rparr> ''test123''
     [(''email'', VStr ''updated@example.com''), (''password'', VStr ''updated123'')] =
     ((Message ''Error updating the user: Simulated database error'', 500),
      \<lparr>user = [user_test], company = [], acknowledged = True\<rparr>)"
    using failure_messages [where fs = "fault_at 1 ''Simulated database error''"
        and err = "''Simulated database error''" and e = example_env
        and s = "\<lparr>user = [user_test], company = [], acknowledged = True\<rparr>"
        and data = "[(''email'', VStr ''updated@example.com''),
                     (''password'', VStr ''updated123'')]"
        and code = "''test123''" and bearer = None
        and data' = "[(''email'', VStr ''updated@example.com''),
                      (''password'', VStr ''$2b$updated123'')]"
        and i = VNull and coll = "[]" and uid = "[]" and oid = VNull]
    by (simp add: fault_at_def storage_call_def hashed_body_def generate_password_hash_def
          has_key_def dict_get_def truthy_def find_one_def matches_def project_def
          user_test_def example_env_def)
  from a b c show ?thesis by simp
qed

section \<open>Tokens issued at login\<close>

text \<open>
  A token signed and verified with one and the same key is accepted until it expires.
\<close>

lemma jwt_same_key:
  assumes "hs256 e' = hs256 e" and "utcnow e' < utcnow e + 86400"
  shows "jwt_decode e' (jwt_encode e (s, utcnow e + 86400) key) key = Inr s"
  using assms by (simp add: jwt_decode_def jwt_encode_def)

text \<open>
  Claim C1 fails on the code. \<^verbatim>\<open>login_user\<close> signs with the literal key
  \<^verbatim>\<open>"your_secret_key_here"\<close>, while \<^verbatim>\<open>@jwt_required()\<close> verifies with the
  \<^verbatim>\<open>JWT_SECRET_KEY\<close> that \<^verbatim>\<open>create_app\<close> configures. For every subject and every
  instant, if the signatures of the payload under the two keys differ, the token that
  login issues is refused at once: decoding reports an invalid signature and
  \<^verbatim>\<open>get_user_profile\<close> answers 422.
\<close>

theorem login_token_rejected:
  assumes "hs256 e ''your_secret_key_here'' (s, utcnow e + 86400) \<noteq>
           hs256 e JWT_SECRET_KEY (s, utcnow e + 86400)"
  shows "jwt_decode e (login_token e s) JWT_SECRET_KEY = Inl Invalid \<and>
         jwt_required e (Some (login_token e s)) =
           Inl (Msg ''Signature verification failed'', 422) \<and>
         get_user_profile e fs st (Some (login_token e s)) =
           (Msg ''Signature verification failed'', 422)"
proof -
  from assms have a: "jwt_decode e (login_token e s) JWT_SECRET_KEY = Inl Invalid"
    by (simp add: jwt_decode_def login_token_def jwt_encode_def)
  then have b: "jwt_required e (Some (login_token e s)) =
      Inl (Msg ''Signature verification failed'', 422)"
    by (simp add: jwt_required_def)
  then have "get_user_profile e fs st (Some (login_token e s)) =
      (Msg ''Signature verification failed'', 422)"
    by (simp add: get_user_profile_def)
  with a b show ?thesis by simp
qed

text \<open>
  The test of the user profile: the user logs in and presents the token at once.
\<close>

lemma login_test_user:
  "login_user example_env no_faults \<lparr>user = [user_test], company = [], acknowledged = True\<rparr>
     [(''email'', VStr ''test@example.com''), (''password'', VStr ''test123'')] =
     (Login (login_token example_env ''5f45b40a808c7ce53d8d3f2a'')
        [(''_id'', VOid ''5f45b40a808c7ce53d8d3f2a''),
         (''dataCreated'', VDate ''2024-01-01 11:45:00.000000''),
         (''email'', VStr ''test@example.com''), (''code'', VStr ''test123''),
         (''id'', VStr ''5f45b40a808c7ce53d8d3f2a'')], 200)"
  by (simp add: login_user_def storage_call_def no_faults_def find_one_def matches_def
        project_def dict_get_def dict_item_def truthy_def check_password_hash_def
        user_test_def example_env_def)

theorem login_token_rejected_witness:
  "get_user_profile example_env no_faults
     \<lparr>user = [user_test], company = [], acknowledged = True\<rparr>
     (Some (login_token example_env ''5f45b40a808c7ce53d8d3f2a'')) =
     (Msg ''Signature verification failed'', 422)"
  using login_token_rejected [of example_env "''5f45b40a808c7ce53d8d3f2a''" no_faults
      "\<lparr>user = [user_test], company = [], acknowledged = True\<rparr>"]
  by (simp add: example_env_def JWT_SECRET_KEY_def)

section \<open>Updating a user\<close>

text \<open>
  Claim C2 fails on the code for users. \<^verbatim>\<open>update_user\<close> passes the request body
  to \<^verbatim>\<open>update_one\<close> as it came, although its comment announces the removal of
  \<^verbatim>\<open>_id\<close> and \<^verbatim>\<open>update_company\<close> removes it. When both storage calls return,
  the body has an \<^verbatim>\<open>_id\<close> other than the one of the stored user and no password,
  the store refuses the write: the answer is 500 and no field of the body is persisted.
\<close>

theorem update_user_passes_client_id:
  assumes "fs 0 = None" and "fs 1 = None"
    and "find_one (user s) [(''code'', VStr code)] [] = Some u" and "u \<noteq> []"
    and "\<not> has_key request_data ''password''"
    and "has_key request_data ''_id''"
    and "map_of u ''_id'' \<noteq> map_of request_data ''_id''"
  shows "update_user e fs s code request_data =
           ((Message (''Error updating the user: '' @ immutable_id), 500), s)"
proof -
  from assms(3,6,7) have "update_one (user s) [(''code'', VStr code)] request_data =
      Inl immutable_id"
    by (simp add: update_one_def)
  with assms(1,2,3,4,5) show ?thesis
    by (simp add: update_user_def storage_call_def truthy_def)
qed

theorem update_user_passes_client_id_witness:
  "update_user example_env no_faults \<lparr>user = [user_test], company = [], acknowledged = True\<rparr>
     ''test123''
     [(''_id'', VStr ''000000000000000000000000''), (''email'', VStr ''updated@example.com'')] =
     ((Message (''Error updating the user: '' @ immutable_id), 500),
      \<lparr>user = [user_test], company = [], acknowledged = True\<rparr>)"
  using update_user_passes_client_id [of no_faults
      "\<lparr>user = [user_test], company = [], acknowledged = True\<rparr>" "''test123''" user_test
      "[(''_id'', VStr ''000000000000000000000000''), (''email'', VStr ''updated@example.com'')]"
      example_env]
  by (simp add: no_faults_def find_one_def matches_def project_def has_key_def user_test_def)

text \<open>
  The same body without \<^verbatim>\<open>_id\<close> updates the user, and \<^verbatim>\<open>update_company\<close>
  applies a body with \<^verbatim>\<open>_id\<close> after removing the field.
\<close>

lemma update_user_without_client_id:
  "update_user example_env no_faults \<lparr>user = [user_test], company = [], acknowledged = True\<rparr>
     ''test123'' [(''email'', VStr ''updated@example.com'')] =
     ((Message ''User updated successfully'', 200),
      \<lparr>user = [[(''_id'', VOid ''5f45b40a808c7ce53d8d3f2a''),
                 (''dataCreated'', VDate ''2024-01-01 11:45:00.000000''),
                 (''email'', VStr ''updated@example.com''), (''password'', VStr ''$2b$test123''),
                 (''code'', VStr ''test123'')]],
       company = [], acknowledged = True\<rparr>)"
  by (simp add: update_user_def storage_call_def no_faults_def update_one_def find_one_def
        matches_def project_def has_key_def dict_merge_def truthy_def user_test_def)

lemma update_company_strips_client_id:
  "update_company no_faults \<lparr>user = [], company = [company_wilox], acknowledged = True\<rparr>
     ''123''
     [(''_id'', VStr ''000000000000000000000000''), (''name'', VStr ''Updated Company'')] =
     ((Message ''Company updated successfully.'', 200),
      \<lparr>user = [],
       company = [[(''_id'', VOid ''609c6f2efbfeb07f8f7221a1''),
                   (''creationDate'', VDate ''2024-01-01 11:00:00.000000''),
                   (''name'', VStr ''Updated Company''), (''code'', VStr ''123'')]],
       acknowledged = True\<rparr>)"
  by (simp add: update_company_def storage_call_def no_faults_def update_one_def find_one_def
        matches_def project_def has_key_def dict_merge_def company_wilox_def)

end
